theory Spec2Isabelle
  imports Complex_Main "HOL-Library.Sublist"
begin

section \<open>JSON values held in \<open>interface{}\<close> fields\<close>

text \<open>
  The envelope fields \<open>id\<close>, \<open>params\<close> and \<open>result\<close> are Go \<open>interface{}\<close> values
  filled by \<open>encoding/json\<close>: \<open>nil\<close> for an absent or \<open>null\<close> member, otherwise a
  bool, a number, a string, a slice or a string-keyed map. \<open>JNull\<close> is the \<open>nil\<close>
  interface, so the test \<open>message.ID != nil\<close> of the source is \<open>ID m \<noteq> JNull\<close>.
  An object is kept as the list of its members in the order \<open>json.Marshal\<close> writes them.
\<close>

datatype json =
    JNull
  | JBool bool
  | JNumber rat
  | JString string
  | JArray "json list"
  | JObject "(string \<times> json) list"

text \<open>
  A Go \<open>error\<close> value that reaches a handler. The handlers only read its text
  (\<open>err.Error()\<close>). \<open>ErrorText s\<close> is an error of a provider whose text is \<open>s\<close>;
  \<open>UnmarshalTypeError v\<close> is the \<open>*json.UnmarshalTypeError\<close> of the standard library
  for a JSON value of kind \<open>v\<close> (its field \<open>Value\<close>), whose text the library renders.
\<close>

datatype go_error = ErrorText string | UnmarshalTypeError string

section \<open>Protocol types (pkg/mcp/types.go)\<close>

record 'd Error =
  Code :: int
  Message :: string
  Data :: 'd

record Message =
  JSONRPC :: string
  ID :: json
  Method :: string
  Params :: json
  Result :: json
  Error :: "json Error option"

record ServerInfo =
  Name :: string
  Version :: string

record ToolsCapability =
  ListChanged :: bool

record ResourcesCapability =
  Subscribe :: bool
  ListChanged :: bool

record ServerCapabilities =
  Logging :: "unit option"
  Prompts :: "bool option"
  Resources :: "ResourcesCapability option"
  Tools :: "ToolsCapability option"
  Experimental :: json

record InitializeResponse =
  ProtocolVersion :: string
  Capabilities :: ServerCapabilities
  ServerInfo :: ServerInfo
  Meta :: json

record Tool =
  Name :: string
  Description :: string
  InputSchema :: json

record ToolCallRequest =
  Name :: string
  Arguments :: json

record Content =
  Type :: string
  Text :: string
  Data :: string

record ToolCallResponse =
  Content :: "Content list"
  IsError :: bool

record Resource =
  URI :: string
  Name :: string
  Description :: string
  MimeType :: string
  Meta :: json

record ResourceReadRequest =
  URI :: string

record ResourceContent =
  URI :: string
  MimeType :: string
  Text :: string
  Blob :: string

record ResourceReadResponse =
  Contents :: "ResourceContent list"

text \<open>
  The \<open>Result\<close> of a response is an \<open>interface{}\<close>; the handlers store one of the
  following in it. \<open>CallToolResult\<close> and \<open>ReadResourceResult\<close> hold the pointer a
  provider returned, which may be \<open>nil\<close>. \<open>ResultNil\<close> is the field left unset, as
  \<open>NewErrorResponse\<close> leaves it.
\<close>

datatype result =
    ResultNil
  | InitializeResult InitializeResponse
  | ToolsResult "Tool list"
  | CallToolResult "ToolCallResponse option"
  | ResourcesResult "Resource list"
  | ReadResourceResult "ResourceReadResponse option"

record Response =
  JSONRPC :: string
  ID :: json
  Result :: result
  Error :: "go_error option Error option"

definition ProtocolVersion :: string where
  "ProtocolVersion = ''2024-11-05''"

definition MethodInitialize :: string where
  "MethodInitialize = ''initialize''"

definition MethodInitialized :: string where
  "MethodInitialized = ''initialized''"

definition MethodListTools :: string where
  "MethodListTools = ''tools/list''"

definition MethodCallTool :: string where
  "MethodCallTool = ''tools/call''"

definition MethodListResources :: string where
  "MethodListResources = ''resources/list''"

definition MethodReadResource :: string where
  "MethodReadResource = ''resources/read''"

definition ErrorCodeParseError :: int where
  "ErrorCodeParseError = - 32700"

definition ErrorCodeInvalidRequest :: int where
  "ErrorCodeInvalidRequest = - 32600"

definition ErrorCodeMethodNotFound :: int where
  "ErrorCodeMethodNotFound = - 32601"

definition ErrorCodeInvalidParams :: int where
  "ErrorCodeInvalidParams = - 32602"

definition ErrorCodeInternalError :: int where
  "ErrorCodeInternalError = - 32603"

definition NewResponse :: "json \<Rightarrow> result \<Rightarrow> Response" where
  "NewResponse id' res =
     \<lparr>Response.JSONRPC = ''2.0'', Response.ID = id', Response.Result = res,
      Response.Error = None\<rparr>"

definition NewErrorResponse :: "json \<Rightarrow> int \<Rightarrow> string \<Rightarrow> go_error option \<Rightarrow> Response" where
  "NewErrorResponse id' code message data =
     \<lparr>Response.JSONRPC = ''2.0'', Response.ID = id', Response.Result = ResultNil,
      Response.Error = Some \<lparr>Code = code, Message = message, Error.Data = data\<rparr>\<rparr>"

text \<open>
  The provider interfaces. A provider is given by what its methods return: a pair
  \<open>(value, err)\<close> of Go is \<open>Inl e\<close> when \<open>err\<close> is not \<open>nil\<close> (the handlers never
  read the value then) and \<open>Inr value\<close> otherwise. Every call passes
  \<open>context.Background()\<close>, so the context carries nothing. While one message is
  handled each method of a registered provider is called at most once, so these values are
  what the calls of that handling return; over the messages of a connection the providers
  are taken to answer alike.
\<close>

record ToolProvider =
  ListTools :: "go_error + Tool list"
  CallTool :: "ToolCallRequest \<Rightarrow> go_error + ToolCallResponse option"

record ResourceProvider =
  ListResources :: "go_error + Resource list"
  ReadResource :: "string \<Rightarrow> go_error + ResourceReadResponse option"

section \<open>Decoding request parameters\<close>

text \<open>
  The handlers re-encode \<open>message.Params\<close> with \<open>json.Marshal\<close> (which cannot fail on
  a decoded JSON value; the source drops its error) and decode the bytes into a request
  struct with \<open>json.Unmarshal\<close>. The functions below follow the documented behaviour of
  \<open>encoding/json\<close> for the kinds of Go type these structs are built from.
\<close>

datatype gotype =
    GString
  | GBool
  | GMap
  | GStruct "(string \<times> gotype) list"

text \<open>
  Object keys are matched to struct fields by name, ignoring case. The library folds
  each letter to the least member of its case orbit; for the ASCII field names used here
  a key matches exactly when its ASCII letters agree up to case, with the two further
  code points U+017F (long s, bytes C5 BF) and U+212A (Kelvin sign, bytes E2 84 AA)
  counted as \<open>S\<close> and \<open>K\<close>.
\<close>

definition foldByte :: "char \<Rightarrow> char" where
  "foldByte c =
     (if 97 \<le> (of_char c :: nat) \<and> (of_char c :: nat) \<le> 122
      then char_of ((of_char c :: nat) - 32) else c)"

fun foldName :: "string \<Rightarrow> string" where
  "foldName [] = []"
| "foldName (a # b # c # cs) =
     (if a = CHR 0xE2 \<and> b = CHR 0x84 \<and> c = CHR 0xAA then CHR ''K'' # foldName cs
      else if a = CHR 0xC5 \<and> b = CHR 0xBF then CHR ''S'' # foldName (c # cs)
      else foldByte a # foldName (b # c # cs))"
| "foldName [a, b] =
     (if a = CHR 0xC5 \<and> b = CHR 0xBF then [CHR ''S''] else [foldByte a, foldByte b])"
| "foldName [a] = [foldByte a]"

fun lookupField :: "(string \<times> gotype) list \<Rightarrow> string \<Rightarrow> gotype option" where
  "lookupField [] k = None"
| "lookupField ((n, t) # fs) k =
     (if foldName n = foldName k then Some t else lookupField fs k)"

definition jsonKind :: "json \<Rightarrow> string" where
  "jsonKind v =
     (case v of
        JNull \<Rightarrow> ''null''
      | JBool b \<Rightarrow> ''bool''
      | JNumber n \<Rightarrow> ''number''
      | JString s \<Rightarrow> ''string''
      | JArray xs \<Rightarrow> ''array''
      | JObject kvs \<Rightarrow> ''object'')"

text \<open>
  \<open>typeError t v\<close> is the kind of the first JSON value that does not fit its
  destination when \<open>v\<close> is decoded into a Go value of type \<open>t\<close>, if there is one:
  \<open>json.Unmarshal\<close> then returns an \<open>UnmarshalTypeError\<close>. \<open>null\<close> fits everywhere
  (it leaves the destination alone or sets it to \<open>nil\<close>), members with no matching field
  are skipped, and a pointer to a struct decodes as the struct.
\<close>

fun typeError :: "gotype \<Rightarrow> json \<Rightarrow> string option"
  and fieldErrors :: "(string \<times> gotype) list \<Rightarrow> (string \<times> json) list \<Rightarrow> string option" where
  "typeError t JNull = None"
| "typeError t (JBool b) = (if t = GBool then None else Some ''bool'')"
| "typeError t (JNumber n) = Some ''number''"
| "typeError t (JString s) = (if t = GString then None else Some ''string'')"
| "typeError t (JArray xs) = Some ''array''"
| "typeError t (JObject kvs) =
     (case t of
        GMap \<Rightarrow> None
      | GStruct fs \<Rightarrow> fieldErrors fs kvs
      | _ \<Rightarrow> Some ''object'')"
| "fieldErrors fs [] = None"
| "fieldErrors fs ((k, v) # kvs) =
     (case lookupField fs k of
        None \<Rightarrow> fieldErrors fs kvs
      | Some t \<Rightarrow>
          (case typeError t v of
             Some e \<Rightarrow> Some e
           | None \<Rightarrow> fieldErrors fs kvs))"

text \<open>
  The value a string field ends with: each matching member with a string value
  overwrites it, in member order; \<open>null\<close> leaves it alone.
\<close>

fun storeString :: "string \<Rightarrow> (string \<times> json) list \<Rightarrow> string \<Rightarrow> string" where
  "storeString n [] cur = cur"
| "storeString n ((k, v) # kvs) cur =
     storeString n kvs
       (if foldName k = foldName n
        then (case v of JString s \<Rightarrow> s | _ \<Rightarrow> cur)
        else cur)"

text \<open>
  The value a \<open>map[string]interface{}\<close> field ends with: \<open>null\<close> sets it to \<open>nil\<close>,
  an object is stored member by member into the map already there (a fresh one when the
  field is \<open>nil\<close>).
\<close>

fun mapSet :: "string \<Rightarrow> json \<Rightarrow> (string \<times> json) list \<Rightarrow> (string \<times> json) list" where
  "mapSet k v [] = [(k, v)]"
| "mapSet k v ((k', v') # m) = (if k' = k then (k, v) # m else (k', v') # mapSet k v m)"

fun mapSetAll :: "(string \<times> json) list \<Rightarrow> (string \<times> json) list \<Rightarrow> (string \<times> json) list" where
  "mapSetAll [] m = m"
| "mapSetAll ((k, v) # kvs) m = mapSetAll kvs (mapSet k v m)"

fun storeMap :: "string \<Rightarrow> (string \<times> json) list \<Rightarrow> json \<Rightarrow> json" where
  "storeMap n [] cur = cur"
| "storeMap n ((k, v) # kvs) cur =
     storeMap n kvs
       (if foldName k = foldName n
        then (case v of
                JNull \<Rightarrow> JNull
              | JObject new \<Rightarrow>
                  JObject (mapSetAll new (case cur of JObject old \<Rightarrow> old | _ \<Rightarrow> []))
              | _ \<Rightarrow> cur)
        else cur)"

definition members :: "json \<Rightarrow> (string \<times> json) list" where
  "members v = (case v of JObject kvs \<Rightarrow> kvs | _ \<Rightarrow> [])"

definition InitializeRequestType :: gotype where
  "InitializeRequestType =
     GStruct
       [(''protocolVersion'', GString),
        (''capabilities'',
           GStruct
             [(''roots'', GStruct [(''listChanged'', GBool)]),
              (''sampling'', GStruct []),
              (''experimental'', GMap)]),
        (''clientInfo'', GStruct [(''name'', GString), (''version'', GString)]),
        (''meta'', GMap)]"

definition ToolCallRequestType :: gotype where
  "ToolCallRequestType = GStruct [(''name'', GString), (''arguments'', GMap)]"

definition ResourceReadRequestType :: gotype where
  "ResourceReadRequestType = GStruct [(''uri'', GString)]"

text \<open>
  \<open>handleInitialize\<close> never reads the decoded \<open>InitializeRequest\<close>, so only the error
  of its \<open>json.Unmarshal\<close> is kept.
\<close>

definition unmarshalInitializeRequest :: "json \<Rightarrow> go_error option" where
  "unmarshalInitializeRequest p =
     map_option UnmarshalTypeError (typeError InitializeRequestType p)"

definition unmarshalToolCallRequest :: "json \<Rightarrow> go_error + ToolCallRequest" where
  "unmarshalToolCallRequest p =
     (case typeError ToolCallRequestType p of
        Some v \<Rightarrow> Inl (UnmarshalTypeError v)
      | None \<Rightarrow>
          Inr \<lparr>ToolCallRequest.Name = storeString ''name'' (members p) [],
               Arguments = storeMap ''arguments'' (members p) JNull\<rparr>)"

definition unmarshalResourceReadRequest :: "json \<Rightarrow> go_error + ResourceReadRequest" where
  "unmarshalResourceReadRequest p =
     (case typeError ResourceReadRequestType p of
        Some v \<Rightarrow> Inl (UnmarshalTypeError v)
      | None \<Rightarrow> Inr \<lparr>ResourceReadRequest.URI = storeString ''uri'' (members p) []\<rparr>)"

section \<open>The server and its connections\<close>

text \<open>
  Of \<open>MCPServer\<close> the handlers read the two provider slices; of \<open>Connection\<close> they
  read and write the flag \<open>initialized\<close>. The locks, the socket and the table of live
  connections are not part of the model: one connection is served by one loop.
\<close>

record MCPServer =
  toolProviders :: "ToolProvider list"
  resourceProviders :: "ResourceProvider list"

record Connection =
  initialized :: bool

definition NewMCPServer :: MCPServer where
  "NewMCPServer = \<lparr>toolProviders = [], resourceProviders = []\<rparr>"

definition RegisterToolProvider :: "MCPServer \<Rightarrow> ToolProvider \<Rightarrow> MCPServer" where
  "RegisterToolProvider s provider = s\<lparr>toolProviders := toolProviders s @ [provider]\<rparr>"

definition RegisterResourceProvider :: "MCPServer \<Rightarrow> ResourceProvider \<Rightarrow> MCPServer" where
  "RegisterResourceProvider s provider =
     s\<lparr>resourceProviders := resourceProviders s @ [provider]\<rparr>"

text \<open>
  Every handler returns, next to its response, the calls it made on providers, in the
  order it made them. A provider is named by its position in the slice it was registered
  in, counted from 0.
\<close>

datatype call =
    ListToolsCall nat
  | CallToolCall nat ToolCallRequest
  | ListResourcesCall nat
  | ReadResourceCall nat string

definition handleInitialize :: "Connection \<Rightarrow> Message \<Rightarrow> Response" where
  "handleInitialize c message =
     (case (if Message.Params message \<noteq> JNull
            then unmarshalInitializeRequest (Message.Params message) else None) of
        Some err \<Rightarrow>
          NewErrorResponse (Message.ID message) ErrorCodeInvalidParams
            ''Invalid initialize parameters'' (Some err)
      | None \<Rightarrow>
          NewResponse (Message.ID message)
            (InitializeResult
               \<lparr>InitializeResponse.ProtocolVersion = ProtocolVersion,
                Capabilities =
                  \<lparr>Logging = None, Prompts = None,
                   Resources = Some \<lparr>Subscribe = False, ResourcesCapability.ListChanged = False\<rparr>,
                   Tools = Some \<lparr>ToolsCapability.ListChanged = False\<rparr>,
                   Experimental = JNull\<rparr>,
                ServerInfo = \<lparr>ServerInfo.Name = ''MCP Server Go'', Version = ''1.0.0''\<rparr>,
                InitializeResponse.Meta = JNull\<rparr>))"

text \<open>
  The loop of \<open>handleListTools\<close> over \<open>c.server.toolProviders\<close>: \<open>i\<close> is the position
  of the next provider, \<open>allTools\<close> the slice collected so far.
\<close>

fun listToolsLoop :: "ToolProvider list \<Rightarrow> nat \<Rightarrow> Tool list \<Rightarrow> (go_error + Tool list) \<times> call list" where
  "listToolsLoop [] i allTools = (Inr allTools, [])"
| "listToolsLoop (provider # rest) i allTools =
     (case ListTools provider of
        Inl err \<Rightarrow> (Inl err, [ListToolsCall i])
      | Inr tools \<Rightarrow>
          (case listToolsLoop rest (Suc i) (allTools @ tools) of
             (r, calls) \<Rightarrow> (r, ListToolsCall i # calls)))"

definition handleListTools :: "MCPServer \<Rightarrow> Connection \<Rightarrow> Message \<Rightarrow> Response \<times> call list" where
  "handleListTools s c message =
     (if \<not> initialized c
      then (NewErrorResponse (Message.ID message) ErrorCodeInvalidRequest
              ''Client not initialized'' None, [])
      else (case listToolsLoop (toolProviders s) 0 [] of
              (Inl err, calls) \<Rightarrow>
                (NewErrorResponse (Message.ID message) ErrorCodeInternalError
                   ''Failed to list tools'' (Some err), calls)
            | (Inr allTools, calls) \<Rightarrow>
                (NewResponse (Message.ID message) (ToolsResult allTools), calls)))"

text \<open>The inner loop of \<open>handleCallTool\<close>: is there a tool of that name in the listing?\<close>

fun hasTool :: "Tool list \<Rightarrow> string \<Rightarrow> bool" where
  "hasTool [] name = False"
| "hasTool (tool # tools) name = (if Tool.Name tool = name then True else hasTool tools name)"

text \<open>
  The outer loop of \<open>handleCallTool\<close>. A provider whose \<open>ListTools\<close> fails is passed
  over (\<open>continue\<close>); the first provider that lists the name is called and the handler
  returns; after the last provider the tool is not found.
\<close>

fun callToolLoop :: "ToolProvider list \<Rightarrow> nat \<Rightarrow> ToolCallRequest \<Rightarrow> json \<Rightarrow> Response \<times> call list" where
  "callToolLoop [] i req id' =
     (NewErrorResponse id' ErrorCodeMethodNotFound
        (''Tool not found: '' @ ToolCallRequest.Name req) None, [])"
| "callToolLoop (provider # rest) i req id' =
     (case ListTools provider of
        Inl err \<Rightarrow>
          (case callToolLoop rest (Suc i) req id' of
             (r, calls) \<Rightarrow> (r, ListToolsCall i # calls))
      | Inr tools \<Rightarrow>
          if hasTool tools (ToolCallRequest.Name req)
          then (case CallTool provider req of
                  Inl err \<Rightarrow>
                    (NewErrorResponse id' ErrorCodeInternalError
                       ''Tool execution failed'' (Some err),
                     [ListToolsCall i, CallToolCall i req])
                | Inr response \<Rightarrow>
                    (NewResponse id' (CallToolResult response),
                     [ListToolsCall i, CallToolCall i req]))
          else (case callToolLoop rest (Suc i) req id' of
                  (r, calls) \<Rightarrow> (r, ListToolsCall i # calls)))"

text \<open>
  \<open>var req mcp.ToolCallRequest\<close> starts as the zero value and is decoded into only when
  \<open>message.Params\<close> is not \<open>nil\<close>.
\<close>

definition decodeToolCallParams :: "json \<Rightarrow> go_error + ToolCallRequest" where
  "decodeToolCallParams params =
     (if params \<noteq> JNull then unmarshalToolCallRequest params
      else Inr \<lparr>ToolCallRequest.Name = [], Arguments = JNull\<rparr>)"

definition handleCallTool :: "MCPServer \<Rightarrow> Connection \<Rightarrow> Message \<Rightarrow> Response \<times> call list" where
  "handleCallTool s c message =
     (if \<not> initialized c
      then (NewErrorResponse (Message.ID message) ErrorCodeInvalidRequest
              ''Client not initialized'' None, [])
      else (case decodeToolCallParams (Message.Params message) of
              Inl err \<Rightarrow>
                (NewErrorResponse (Message.ID message) ErrorCodeInvalidParams
                   ''Invalid tool call parameters'' (Some err), [])
            | Inr req \<Rightarrow> callToolLoop (toolProviders s) 0 req (Message.ID message)))"

fun listResourcesLoop :: "ResourceProvider list \<Rightarrow> nat \<Rightarrow> Resource list \<Rightarrow> (go_error + Resource list) \<times> call list" where
  "listResourcesLoop [] i allResources = (Inr allResources, [])"
| "listResourcesLoop (provider # rest) i allResources =
     (case ListResources provider of
        Inl err \<Rightarrow> (Inl err, [ListResourcesCall i])
      | Inr resources \<Rightarrow>
          (case listResourcesLoop rest (Suc i) (allResources @ resources) of
             (r, calls) \<Rightarrow> (r, ListResourcesCall i # calls)))"

definition handleListResources :: "MCPServer \<Rightarrow> Connection \<Rightarrow> Message \<Rightarrow> Response \<times> call list" where
  "handleListResources s c message =
     (if \<not> initialized c
      then (NewErrorResponse (Message.ID message) ErrorCodeInvalidRequest
              ''Client not initialized'' None, [])
      else (case listResourcesLoop (resourceProviders s) 0 [] of
              (Inl err, calls) \<Rightarrow>
                (NewErrorResponse (Message.ID message) ErrorCodeInternalError
                   ''Failed to list resources'' (Some err), calls)
            | (Inr allResources, calls) \<Rightarrow>
                (NewResponse (Message.ID message) (ResourcesResult allResources), calls)))"

fun hasResource :: "Resource list \<Rightarrow> string \<Rightarrow> bool" where
  "hasResource [] uri = False"
| "hasResource (resource # resources) uri =
     (if Resource.URI resource = uri then True else hasResource resources uri)"

fun readResourceLoop :: "ResourceProvider list \<Rightarrow> nat \<Rightarrow> ResourceReadRequest \<Rightarrow> json \<Rightarrow> Response \<times> call list" where
  "readResourceLoop [] i req id' =
     (NewErrorResponse id' ErrorCodeMethodNotFound
        (''Resource not found: '' @ ResourceReadRequest.URI req) None, [])"
| "readResourceLoop (provider # rest) i req id' =
     (case ListResources provider of
        Inl err \<Rightarrow>
          (case readResourceLoop rest (Suc i) req id' of
             (r, calls) \<Rightarrow> (r, ListResourcesCall i # calls))
      | Inr resources \<Rightarrow>
          if hasResource resources (ResourceReadRequest.URI req)
          then (case ReadResource provider (ResourceReadRequest.URI req) of
                  Inl err \<Rightarrow>
                    (NewErrorResponse id' ErrorCodeInternalError
                       ''Resource read failed'' (Some err),
                     [ListResourcesCall i, ReadResourceCall i (ResourceReadRequest.URI req)])
                | Inr response \<Rightarrow>
                    (NewResponse id' (ReadResourceResult response),
                     [ListResourcesCall i, ReadResourceCall i (ResourceReadRequest.URI req)]))
          else (case readResourceLoop rest (Suc i) req id' of
                  (r, calls) \<Rightarrow> (r, ListResourcesCall i # calls)))"

definition decodeResourceReadParams :: "json \<Rightarrow> go_error + ResourceReadRequest" where
  "decodeResourceReadParams params =
     (if params \<noteq> JNull then unmarshalResourceReadRequest params
      else Inr \<lparr>ResourceReadRequest.URI = []\<rparr>)"

definition handleReadResource :: "MCPServer \<Rightarrow> Connection \<Rightarrow> Message \<Rightarrow> Response \<times> call list" where
  "handleReadResource s c message =
     (if \<not> initialized c
      then (NewErrorResponse (Message.ID message) ErrorCodeInvalidRequest
              ''Client not initialized'' None, [])
      else (case decodeResourceReadParams (Message.Params message) of
              Inl err \<Rightarrow>
                (NewErrorResponse (Message.ID message) ErrorCodeInvalidParams
                   ''Invalid resource read parameters'' (Some err), [])
            | Inr req \<Rightarrow> readResourceLoop (resourceProviders s) 0 req (Message.ID message)))"

definition handleRequest :: "MCPServer \<Rightarrow> Connection \<Rightarrow> Message \<Rightarrow> Response \<times> call list" where
  "handleRequest s c message =
     (if Method message = MethodInitialize then (handleInitialize c message, [])
      else if Method message = MethodListTools then handleListTools s c message
      else if Method message = MethodCallTool then handleCallTool s c message
      else if Method message = MethodListResources then handleListResources s c message
      else if Method message = MethodReadResource then handleReadResource s c message
      else (NewErrorResponse (Message.ID message) ErrorCodeMethodNotFound
              (''Method not found: '' @ Method message) None, []))"

definition handleNotification :: "Connection \<Rightarrow> Message \<Rightarrow> Connection" where
  "handleNotification c message =
     (if Method message = MethodInitialized then c\<lparr>initialized := True\<rparr> else c)"

text \<open>
  \<open>handleMessage\<close> returns the response to write (\<open>None\<close> for the \<open>nil\<close> it returns
  after a notification), the connection as the handler left it, and the provider calls
  made.
\<close>

definition handleMessage :: "MCPServer \<Rightarrow> Connection \<Rightarrow> Message \<Rightarrow> Response option \<times> Connection \<times> call list" where
  "handleMessage s c message =
     (if Method message \<noteq> [] \<and> Message.ID message \<noteq> JNull
      then (case handleRequest s c message of (r, calls) \<Rightarrow> (Some r, c, calls))
      else if Method message \<noteq> [] \<and> Message.ID message = JNull
      then (None, handleNotification c message, [])
      else (Some (NewErrorResponse (Message.ID message) ErrorCodeInvalidRequest
                    ''Invalid message format'' None), c, []))"

section \<open>The message loop of a connection\<close>

text \<open>
  What \<open>conn.ReadJSON\<close> returns for the frames of a connection, in arrival order:
  \<open>Decoded m\<close> when a frame decodes into the \<open>Message\<close> \<open>m\<close>, \<open>Undecodable\<close> when
  it returns an error for the frame. After the last frame of the list the peer has closed
  the connection, and \<open>ReadJSON\<close> returns an error as well.
\<close>

datatype frame = Undecodable | Decoded Message

text \<open>
  The state of the loop in \<open>handleWebSocket\<close>: the connection, the responses written
  with \<open>conn.WriteJSON\<close> so far, the provider calls made so far, the number of messages
  passed to \<open>handleMessage\<close>, and whether the socket has been closed.
\<close>

record session =
  conn :: Connection
  written :: "Response list"
  calls :: "call list"
  handled :: nat
  closed :: bool

text \<open>
  \<open>writeOK k r\<close> tells whether \<open>conn.WriteJSON\<close> succeeds when \<open>r\<close> is written
  after \<open>k\<close> earlier responses. The loop ends at the first read error and at the first
  write error.
\<close>

fun messageLoop :: "MCPServer \<Rightarrow> (nat \<Rightarrow> Response \<Rightarrow> bool) \<Rightarrow> frame list \<Rightarrow> session \<Rightarrow> session" where
  "messageLoop s writeOK [] st = st"
| "messageLoop s writeOK (Undecodable # frames) st = st"
| "messageLoop s writeOK (Decoded message # frames) st =
     (case handleMessage s (conn st) message of
        (response, c', cs) \<Rightarrow>
          (case response of
             None \<Rightarrow>
               messageLoop s writeOK frames
                 (st\<lparr>conn := c', calls := calls st @ cs, handled := Suc (handled st)\<rparr>)
           | Some r \<Rightarrow>
               if writeOK (length (written st)) r
               then messageLoop s writeOK frames
                      (st\<lparr>conn := c', written := written st @ [r], calls := calls st @ cs,
                          handled := Suc (handled st)\<rparr>)
               else st\<lparr>conn := c', calls := calls st @ cs, handled := Suc (handled st)\<rparr>))"

definition newSession :: session where
  "newSession =
     \<lparr>conn = \<lparr>initialized = False\<rparr>, written = [], calls = [], handled = 0, closed = False\<rparr>"

text \<open>
  \<open>handleWebSocket\<close> after a successful upgrade: a fresh \<open>Connection\<close>, the loop, and
  the deferred \<open>conn.Close()\<close>.
\<close>

definition handleWebSocket :: "MCPServer \<Rightarrow> (nat \<Rightarrow> Response \<Rightarrow> bool) \<Rightarrow> frame list \<Rightarrow> session" where
  "handleWebSocket s writeOK frames = (messageLoop s writeOK frames newSession)\<lparr>closed := True\<rparr>"

section \<open>Notions used in the statements\<close>

text \<open>
  The listing of a provider, empty when \<open>ListTools\<close> fails, and whether a provider
  lists a name: the test \<open>handleCallTool\<close> makes before it calls \<open>CallTool\<close>.
\<close>

definition listing :: "ToolProvider \<Rightarrow> Tool list" where
  "listing p = (case ListTools p of Inl err \<Rightarrow> [] | Inr tools \<Rightarrow> tools)"

definition listsTool :: "ToolProvider \<Rightarrow> string \<Rightarrow> bool" where
  "listsTool p name = (case ListTools p of Inl err \<Rightarrow> False | Inr tools \<Rightarrow> hasTool tools name)"

text \<open>The response \<open>handleCallTool\<close> builds from what \<open>CallTool\<close> returned.\<close>

definition callToolResponse :: "json \<Rightarrow> go_error + ToolCallResponse option \<Rightarrow> Response" where
  "callToolResponse rid r =
     (case r of
        Inl err \<Rightarrow> NewErrorResponse rid ErrorCodeInternalError ''Tool execution failed'' (Some err)
      | Inr response \<Rightarrow> NewResponse rid (CallToolResult response))"

text \<open>
  The classification of \<open>handleMessage\<close>: a request has a method and an id, a
  notification has a method and no id.
\<close>

definition isRequest :: "Message \<Rightarrow> bool" where
  "isRequest m = (Method m \<noteq> [] \<and> Message.ID m \<noteq> JNull)"

definition isNotification :: "Message \<Rightarrow> bool" where
  "isNotification m = (Method m \<noteq> [] \<and> Message.ID m = JNull)"

text \<open>The messages of a connection that arrive before its first undecodable frame.\<close>

fun decodedPrefix :: "frame list \<Rightarrow> Message list" where
  "decodedPrefix [] = []"
| "decodedPrefix (Undecodable # frames) = []"
| "decodedPrefix (Decoded m # frames) = m # decodedPrefix frames"

text \<open>
  The responses to a list of messages handled one after the other, each by
  \<open>handleMessage\<close> on the connection as the message before left it.
\<close>

fun sequentialAnswers :: "MCPServer \<Rightarrow> Connection \<Rightarrow> Message list \<Rightarrow> Response list" where
  "sequentialAnswers s c [] = []"
| "sequentialAnswers s c (m # ms) =
     (case handleMessage s c m of
        (response, c', cs) \<Rightarrow>
          (case response of None \<Rightarrow> [] | Some r \<Rightarrow> [r]) @ sequentialAnswers s c' ms)"

section \<open>Concrete messages and providers\<close>

definition requestMessage :: "json \<Rightarrow> string \<Rightarrow> json \<Rightarrow> Message" where
  "requestMessage rid method params =
     \<lparr>Message.JSONRPC = ''2.0'', Message.ID = rid, Method = method, Params = params,
      Message.Result = JNull, Message.Error = None\<rparr>"

definition scenarioInitializeParams :: json where
  "scenarioInitializeParams =
     JObject
       [(''capabilities'', JObject []),
        (''clientInfo'', JObject [(''name'', JString ''t''), (''version'', JString ''1.0'')]),
        (''protocolVersion'', JString ''2024-11-05'')]"

definition pingTool :: Tool where
  "pingTool = \<lparr>Tool.Name = ''ping'', Tool.Description = [], InputSchema = JObject []\<rparr>"

definition textResponse :: "string \<Rightarrow> ToolCallResponse option" where
  "textResponse txt =
     Some \<lparr>Content = [\<lparr>Type = ''text'', Content.Text = txt, Content.Data = []\<rparr>], IsError = False\<rparr>"

definition pingProvider :: "string \<Rightarrow> ToolProvider" where
  "pingProvider txt = \<lparr>ListTools = Inr [pingTool], CallTool = (\<lambda>req. Inr (textResponse txt))\<rparr>"

definition failingProvider :: ToolProvider where
  "failingProvider = \<lparr>ListTools = Inr [pingTool], CallTool = (\<lambda>req. Inl (ErrorText ''boom''))\<rparr>"

definition brokenListProvider :: ToolProvider where
  "brokenListProvider =
     \<lparr>ListTools = Inl (ErrorText ''down''), CallTool = (\<lambda>req. Inr (textResponse ''never''))\<rparr>"

definition pingParams :: json where
  "pingParams = JObject [(''arguments'', JObject []), (''name'', JString ''ping'')]"

definition pingRequest :: ToolCallRequest where
  "pingRequest = \<lparr>ToolCallRequest.Name = ''ping'', Arguments = JObject []\<rparr>"

definition alwaysWritable :: "nat \<Rightarrow> Response \<Rightarrow> bool" where
  "alwaysWritable k r = True"

definition initializeResult :: result where
  "initializeResult =
     InitializeResult
       \<lparr>InitializeResponse.ProtocolVersion = ''2024-11-05'',
        Capabilities =
          \<lparr>Logging = None, Prompts = None,
           Resources = Some \<lparr>Subscribe = False, ResourcesCapability.ListChanged = False\<rparr>,
           Tools = Some \<lparr>ToolsCapability.ListChanged = False\<rparr>,
           Experimental = JNull\<rparr>,
        ServerInfo = \<lparr>ServerInfo.Name = ''MCP Server Go'', Version = ''1.0.0''\<rparr>,
        InitializeResponse.Meta = JNull\<rparr>"

definition readySession :: session where
  "readySession = newSession\<lparr>conn := \<lparr>initialized = True\<rparr>\<rparr>"

definition pingCall :: Message where
  "pingCall = requestMessage (JNumber 3) ''tools/call'' pingParams"

definition listCall :: Message where
  "listCall = requestMessage (JNumber 4) ''tools/list'' JNull"

definition invalidEnvelope :: Message where
  "invalidEnvelope = requestMessage (JNumber 7) [] JNull"

definition initializeCall :: Message where
  "initializeCall = requestMessage (JNumber 1) ''initialize'' scenarioInitializeParams"

definition notificationMessage :: "string \<Rightarrow> Message" where
  "notificationMessage method = requestMessage JNull method JNull"

section \<open>Classification and the loop step\<close>

lemma handleMessage_notification:
  "Method m \<noteq> [] \<Longrightarrow> Message.ID m = JNull \<Longrightarrow>
   handleMessage s c m = (None, handleNotification c m, [])"
  by (simp add: handleMessage_def)

lemma handleMessage_invalid:
  "Method m = [] \<Longrightarrow>
   handleMessage s c m =
     (Some (NewErrorResponse (Message.ID m) ErrorCodeInvalidRequest ''Invalid message format'' None),
      c, [])"
  by (simp add: handleMessage_def)

lemma handleMessage_request:
  "Method m \<noteq> [] \<Longrightarrow> Message.ID m \<noteq> JNull \<Longrightarrow>
   handleMessage s c m = (Some (fst (handleRequest s c m)), c, snd (handleRequest s c m))"
  by (simp add: handleMessage_def split: prod.splits)

lemma messageLoop_written:
  "handleMessage s (conn st) m = (Some r, c', cs) \<Longrightarrow> writeOK (length (written st)) r \<Longrightarrow>
   messageLoop s writeOK (Decoded m # frames) st =
     messageLoop s writeOK frames
       (st\<lparr>conn := c', written := written st @ [r], calls := calls st @ cs,
           handled := Suc (handled st)\<rparr>)"
  by simp

section \<open>Requests before the handshake\<close>

text \<open>
  C1. On a connection whose flag \<open>initialized\<close> is false, a request (method and id
  present) for tools/list, tools/call, resources/list or resources/read is answered with
  the error -32600 "Client not initialized", the connection is left as it was, and no
  provider method is called: the list of provider calls is empty.
\<close>

theorem uninitialized_rejected:
  assumes "\<not> initialized c" and "Message.ID m \<noteq> JNull"
    and "Method m = ''tools/list'' \<or> Method m = ''tools/call'' \<or> Method m = ''resources/list''
         \<or> Method m = ''resources/read''"
  shows "handleMessage s c m =
       (Some \<lparr>Response.JSONRPC = ''2.0'', Response.ID = Message.ID m, Response.Result = ResultNil,
              Response.Error = Some \<lparr>Code = - 32600, Message = ''Client not initialized'',
                                      Error.Data = None\<rparr>\<rparr>, c, [])"
  using assms
  by (auto simp add: handleMessage_def handleRequest_def handleListTools_def handleCallTool_def
      handleListResources_def handleReadResource_def NewErrorResponse_def ErrorCodeInvalidRequest_def
      MethodInitialize_def MethodListTools_def MethodCallTool_def MethodListResources_def
      MethodReadResource_def)

theorem uninitialized_rejected_witness:
  "handleMessage (RegisterToolProvider NewMCPServer (pingProvider ''A''))
     \<lparr>initialized = False\<rparr> (requestMessage (JNumber 2) ''tools/call'' pingParams) =
       (Some \<lparr>Response.JSONRPC = ''2.0'', Response.ID = JNumber 2, Response.Result = ResultNil,
              Response.Error = Some \<lparr>Code = - 32600, Message = ''Client not initialized'',
                                      Error.Data = None\<rparr>\<rparr>, \<lparr>initialized = False\<rparr>, [])"
  using uninitialized_rejected [of "\<lparr>initialized = False\<rparr>"
      "requestMessage (JNumber 2) ''tools/call'' pingParams"
      "RegisterToolProvider NewMCPServer (pingProvider ''A'')"]
  by (simp add: requestMessage_def)

section \<open>Notifications and invalid envelopes\<close>

text \<open>
  C6. The notification \<open>initialized\<close> sets the flag \<open>initialized\<close> and produces no
  response and no provider call, whatever the flag was; on a connection that is already
  initialized it changes nothing; handling it a second time gives the same outcome as
  handling it once.
\<close>

theorem initialized_notification_ready:
  assumes "Method m = ''initialized''" and "Message.ID m = JNull"
  shows "handleMessage s c m = (None, c\<lparr>initialized := True\<rparr>, [])
     \<and> (initialized c \<longrightarrow> handleMessage s c m = (None, c, []))
     \<and> handleMessage s (fst (snd (handleMessage s c m))) m = handleMessage s c m"
  using assms by (simp add: handleMessage_def handleNotification_def MethodInitialized_def)

theorem initialized_notification_ready_witness:
  "handleMessage NewMCPServer \<lparr>initialized = False\<rparr> (notificationMessage ''initialized'')
     = (None, \<lparr>initialized = True\<rparr>, [])
   \<and> handleMessage NewMCPServer \<lparr>initialized = True\<rparr> (notificationMessage ''initialized'')
     = (None, \<lparr>initialized = True\<rparr>, [])"
  using initialized_notification_ready [of "notificationMessage ''initialized''" NewMCPServer
      "\<lparr>initialized = False\<rparr>"]
    initialized_notification_ready [of "notificationMessage ''initialized''" NewMCPServer
      "\<lparr>initialized = True\<rparr>"]
  by (simp add: notificationMessage_def requestMessage_def)

text \<open>
  C9. A notification (method present, id absent) never yields a response, whatever its
  method and whatever the state of the connection: \<open>handleMessage\<close> returns \<open>nil\<close>,
  no provider is called, and the loop writes nothing for it.
\<close>

theorem notification_no_response:
  assumes "Method m \<noteq> []" and "Message.ID m = JNull"
  shows "fst (handleMessage s c m) = None
     \<and> snd (snd (handleMessage s c m)) = []
     \<and> written (messageLoop s writeOK [Decoded m] st) = written st"
  using assms by (simp add: handleMessage_def)

theorem notification_no_response_witness:
  "fst (handleMessage NewMCPServer \<lparr>initialized = False\<rparr> (notificationMessage ''no/such'')) = None
   \<and> written (messageLoop NewMCPServer alwaysWritable
        [Decoded (notificationMessage ''no/such'')] newSession) = []"
  using notification_no_response [of "notificationMessage ''no/such''" NewMCPServer
      "\<lparr>initialized = False\<rparr>" alwaysWritable newSession]
  by (simp add: notificationMessage_def requestMessage_def newSession_def)

text \<open>
  C10. An envelope with an empty method is answered with the error -32600
  "Invalid message format" carrying the envelope's id (\<open>nil\<close> when it had none); the
  connection is left as it was, no provider is called, and when the response can be
  written the loop goes on with the next frame.
\<close>

theorem invalid_envelope_answered:
  assumes "Method m = []"
  shows "handleMessage s c m =
       (Some \<lparr>Response.JSONRPC = ''2.0'', Response.ID = Message.ID m, Response.Result = ResultNil,
              Response.Error = Some \<lparr>Code = - 32600, Message = ''Invalid message format'',
                                      Error.Data = None\<rparr>\<rparr>, c, [])
     \<and> (writeOK (length (written st))
           (NewErrorResponse (Message.ID m) ErrorCodeInvalidRequest ''Invalid message format'' None) \<longrightarrow>
         messageLoop s writeOK (Decoded m # frames) st =
           messageLoop s writeOK frames
             (st\<lparr>written := written st @
                   [NewErrorResponse (Message.ID m) ErrorCodeInvalidRequest ''Invalid message format'' None],
                 handled := Suc (handled st)\<rparr>))"
  using assms by (simp add: handleMessage_def NewErrorResponse_def ErrorCodeInvalidRequest_def)

theorem invalid_envelope_answered_witness:
  "handleMessage NewMCPServer \<lparr>initialized = False\<rparr> (requestMessage JNull [] JNull) =
       (Some \<lparr>Response.JSONRPC = ''2.0'', Response.ID = JNull, Response.Result = ResultNil,
              Response.Error = Some \<lparr>Code = - 32600, Message = ''Invalid message format'',
                                      Error.Data = None\<rparr>\<rparr>, \<lparr>initialized = False\<rparr>, [])
   \<and> messageLoop NewMCPServer alwaysWritable [Decoded (requestMessage JNull [] JNull)] newSession =
       newSession\<lparr>written :=
           [NewErrorResponse JNull ErrorCodeInvalidRequest ''Invalid message format'' None],
         handled := Suc 0\<rparr>"
  using invalid_envelope_answered [of "requestMessage JNull [] JNull" NewMCPServer
      "\<lparr>initialized = False\<rparr>" alwaysWritable newSession "[]"]
  by (simp add: requestMessage_def alwaysWritable_def newSession_def NewErrorResponse_def
      ErrorCodeInvalidRequest_def handleMessage_def)

section \<open>The loops over the registered providers\<close>

lemma hasTool_iff: "hasTool tools name \<longleftrightarrow> name \<in> Tool.Name ` set tools"
  by (induction tools) auto

lemma listsTool_iff:
  "listsTool p name \<longleftrightarrow> (\<exists>tools. ListTools p = Inr tools \<and> name \<in> Tool.Name ` set tools)"
  by (cases "ListTools p") (simp_all add: listsTool_def hasTool_iff)

lemma toolProviders_register:
  "toolProviders (foldl RegisterToolProvider s ps) = toolProviders s @ ps"
  by (induction ps arbitrary: s) (simp_all add: RegisterToolProvider_def)

lemma listToolsLoop_ok:
  "\<forall>p\<in>set ps. \<not> isl (ListTools p) \<Longrightarrow>
   listToolsLoop ps i acc =
     (Inr (acc @ concat (map listing ps)), map ListToolsCall [i..<i + length ps])"
proof (induction ps arbitrary: i acc)
  case Nil
  then show ?case by simp
next
  case (Cons p ps)
  from Cons.prems obtain tools where t: "ListTools p = Inr tools"
    by (cases "ListTools p") auto
  have "listToolsLoop ps (Suc i) (acc @ tools) =
      (Inr ((acc @ tools) @ concat (map listing ps)), map ListToolsCall [Suc i..<Suc i + length ps])"
    using Cons.prems by (intro Cons.IH) simp
  moreover have "listing p = tools" using t by (simp add: listing_def)
  ultimately show ?case using t by (simp del: upt_Suc add: upt_conv_Cons)
qed

lemma listToolsLoop_fail:
  "\<forall>p\<in>set pre. \<not> isl (ListTools p) \<Longrightarrow> ListTools q = Inl err \<Longrightarrow>
   listToolsLoop (pre @ q # post) i acc = (Inl err, map ListToolsCall [i..<Suc (i + length pre)])"
proof (induction pre arbitrary: i acc)
  case Nil
  then show ?case by simp
next
  case (Cons p pre)
  from Cons.prems obtain tools where t: "ListTools p = Inr tools"
    by (cases "ListTools p") auto
  have "listToolsLoop (pre @ q # post) (Suc i) (acc @ tools) =
      (Inl err, map ListToolsCall [Suc i..<Suc (Suc i + length pre)])"
    using Cons.prems by (intro Cons.IH) simp_all
  then show ?case using t by (simp del: upt_Suc add: upt_conv_Cons)
qed

lemma callToolLoop_none:
  "\<forall>p\<in>set ps. \<not> listsTool p (ToolCallRequest.Name req) \<Longrightarrow>
   callToolLoop ps i req rid =
     (NewErrorResponse rid ErrorCodeMethodNotFound (''Tool not found: '' @ ToolCallRequest.Name req) None,
      map ListToolsCall [i..<i + length ps])"
proof (induction ps arbitrary: i)
  case Nil
  then show ?case by simp
next
  case (Cons p ps)
  have ih: "callToolLoop ps (Suc i) req rid =
     (NewErrorResponse rid ErrorCodeMethodNotFound (''Tool not found: '' @ ToolCallRequest.Name req) None,
      map ListToolsCall [Suc i..<Suc i + length ps])"
    using Cons.prems by (intro Cons.IH) simp
  from Cons.prems have "\<not> listsTool p (ToolCallRequest.Name req)" by simp
  then show ?case using ih
    by (cases "ListTools p") (simp_all del: upt_Suc add: listsTool_def upt_conv_Cons)
qed

lemma callToolLoop_first:
  "\<forall>p\<in>set pre. \<not> listsTool p (ToolCallRequest.Name req) \<Longrightarrow>
   listsTool q (ToolCallRequest.Name req) \<Longrightarrow>
   callToolLoop (pre @ q # post) i req rid =
     (callToolResponse rid (CallTool q req),
      map ListToolsCall [i..<i + length pre] @
        [ListToolsCall (i + length pre), CallToolCall (i + length pre) req])"
proof (induction pre arbitrary: i)
  case Nil
  then show ?case
    by (cases "ListTools q"; cases "CallTool q req") (simp_all add: listsTool_def callToolResponse_def)
next
  case (Cons p pre)
  have ih: "callToolLoop (pre @ q # post) (Suc i) req rid =
     (callToolResponse rid (CallTool q req),
      map ListToolsCall [Suc i..<Suc i + length pre] @
        [ListToolsCall (Suc i + length pre), CallToolCall (Suc i + length pre) req])"
    using Cons.prems by (intro Cons.IH) simp_all
  from Cons.prems have "\<not> listsTool p (ToolCallRequest.Name req)" by simp
  then show ?case using ih
    by (cases "ListTools p") (simp_all del: upt_Suc add: listsTool_def upt_conv_Cons)
qed

lemma decode_ping: "decodeToolCallParams pingParams = Inr pingRequest"
  by (simp add: decodeToolCallParams_def pingParams_def unmarshalToolCallRequest_def
      ToolCallRequestType_def members_def foldByte_def pingRequest_def)

lemma decode_init: "unmarshalInitializeRequest scenarioInitializeParams = None"
  by (simp add: unmarshalInitializeRequest_def scenarioInitializeParams_def InitializeRequestType_def foldByte_def)

section \<open>Response ids and the responses of a connection\<close>

lemma callToolLoop_ID: "Response.ID (fst (callToolLoop ps i req rid)) = rid"
  by (induction ps arbitrary: i)
    (simp_all add: NewErrorResponse_def NewResponse_def case_prod_beta split: sum.splits)

lemma readResourceLoop_ID: "Response.ID (fst (readResourceLoop ps i req rid)) = rid"
  by (induction ps arbitrary: i)
    (simp_all add: NewErrorResponse_def NewResponse_def case_prod_beta split: sum.splits)

lemma NewResponse_ID: "Response.ID (NewResponse rid res) = rid"
  by (simp add: NewResponse_def)

lemma NewErrorResponse_ID: "Response.ID (NewErrorResponse rid code msg data) = rid"
  by (simp add: NewErrorResponse_def)

lemma handleInitialize_ID: "Response.ID (handleInitialize c m) = Message.ID m"
  by (simp add: handleInitialize_def NewResponse_ID NewErrorResponse_ID split: option.splits)

lemma handleListTools_ID: "Response.ID (fst (handleListTools s c m)) = Message.ID m"
  by (simp add: handleListTools_def NewResponse_ID NewErrorResponse_ID
      split: prod.splits sum.splits)

lemma handleCallTool_ID: "Response.ID (fst (handleCallTool s c m)) = Message.ID m"
  by (simp add: handleCallTool_def callToolLoop_ID NewErrorResponse_ID split: sum.splits)

lemma handleListResources_ID: "Response.ID (fst (handleListResources s c m)) = Message.ID m"
  by (simp add: handleListResources_def NewResponse_ID NewErrorResponse_ID
      split: prod.splits sum.splits)

lemma handleReadResource_ID: "Response.ID (fst (handleReadResource s c m)) = Message.ID m"
  by (simp add: handleReadResource_def readResourceLoop_ID NewErrorResponse_ID split: sum.splits)

lemma handleRequest_ID: "Response.ID (fst (handleRequest s c m)) = Message.ID m"
  by (simp add: handleRequest_def handleInitialize_ID handleListTools_ID handleCallTool_ID
      handleListResources_ID handleReadResource_ID NewErrorResponse_ID)

lemma handleMessage_ID:
  "handleMessage s c m = (Some r, c', cs) \<Longrightarrow> Response.ID r = Message.ID m"
  using handleRequest_ID [of s c m]
  by (auto simp add: handleMessage_def NewErrorResponse_ID split: if_splits prod.splits)

lemma handleMessage_None_iff: "fst (handleMessage s c m) = None \<longleftrightarrow> isNotification m"
  by (auto simp add: handleMessage_def isNotification_def split: prod.splits)

lemma sequentialAnswers_IDs:
  "map Response.ID (sequentialAnswers s c ms) =
   map Message.ID (filter (\<lambda>m. \<not> isNotification m) ms)"
proof (induction ms arbitrary: c)
  case Nil
  then show ?case by simp
next
  case (Cons m ms)
  obtain r c' cs where h: "handleMessage s c m = (r, c', cs)"
    by (cases "handleMessage s c m") auto
  show ?case
  proof (cases r)
    case None
    with h have "isNotification m" using handleMessage_None_iff [of s c m] by simp
    with h None Cons.IH [of c'] show ?thesis by simp
  next
    case (Some x)
    with h have "\<not> isNotification m" using handleMessage_None_iff [of s c m] by simp
    moreover have "Response.ID x = Message.ID m" using h Some handleMessage_ID by blast
    ultimately show ?thesis using h Some Cons.IH [of c'] by simp
  qed
qed

lemma messageLoop_prefix:
  "\<exists>zs. written (messageLoop s writeOK frames st) = written st @ zs
      \<and> prefix zs (sequentialAnswers s (conn st) (decodedPrefix frames))"
proof (induction frames arbitrary: st)
  case Nil
  then show ?case by simp
next
  case (Cons f frames)
  show ?case
  proof (cases f)
    case Undecodable
    then show ?thesis by simp
  next
    case (Decoded message)
    obtain r c' cs where h: "handleMessage s (conn st) message = (r, c', cs)"
      by (cases "handleMessage s (conn st) message") auto
    show ?thesis
    proof (cases r)
      case None
      with h Decoded
        Cons.IH [of "st\<lparr>conn := c', calls := calls st @ cs, handled := Suc (handled st)\<rparr>"]
      show ?thesis by simp
    next
      case (Some x)
      show ?thesis
      proof (cases "writeOK (length (written st)) x")
        case True
        from Cons.IH [of "st\<lparr>conn := c', written := written st @ [x], calls := calls st @ cs,
              handled := Suc (handled st)\<rparr>"]
        obtain zs where "written (messageLoop s writeOK frames
            (st\<lparr>conn := c', written := written st @ [x], calls := calls st @ cs,
                handled := Suc (handled st)\<rparr>)) = (written st @ [x]) @ zs"
          and "prefix zs (sequentialAnswers s c' (decodedPrefix frames))"
          by auto
        with h Some True Decoded show ?thesis by (intro exI [of _ "x # zs"]) simp
      next
        case False
        with h Some Decoded show ?thesis by simp
      qed
    qed
  qed
qed

lemma messageLoop_all_written:
  "\<forall>k r. writeOK k r \<Longrightarrow>
   written (messageLoop s writeOK frames st) =
     written st @ sequentialAnswers s (conn st) (decodedPrefix frames)
   \<and> handled (messageLoop s writeOK frames st) = handled st + length (decodedPrefix frames)"
proof (induction frames arbitrary: st)
  case Nil
  then show ?case by simp
next
  case (Cons f frames)
  show ?case
  proof (cases f)
    case Undecodable
    then show ?thesis by simp
  next
    case (Decoded message)
    obtain r c' cs where h: "handleMessage s (conn st) message = (r, c', cs)"
      by (cases "handleMessage s (conn st) message") auto
    show ?thesis
    proof (cases r)
      case None
      with h Decoded Cons.prems
        Cons.IH [of "st\<lparr>conn := c', calls := calls st @ cs, handled := Suc (handled st)\<rparr>"]
      show ?thesis by simp
    next
      case (Some x)
      with h Decoded Cons.prems
        Cons.IH [of "st\<lparr>conn := c', written := written st @ [x], calls := calls st @ cs,
              handled := Suc (handled st)\<rparr>"]
      show ?thesis by simp
    qed
  qed
qed

lemma messageLoop_handled:
  "handled (messageLoop s writeOK frames st) \<le> handled st + length (decodedPrefix frames)"
proof (induction frames arbitrary: st)
  case Nil
  then show ?case by simp
next
  case (Cons f frames)
  show ?case
  proof (cases f)
    case Undecodable
    then show ?thesis by simp
  next
    case (Decoded message)
    obtain r c' cs where h: "handleMessage s (conn st) message = (r, c', cs)"
      by (cases "handleMessage s (conn st) message") auto
    show ?thesis
    proof (cases r)
      case None
      with h Decoded
        Cons.IH [of "st\<lparr>conn := c', calls := calls st @ cs, handled := Suc (handled st)\<rparr>"]
      show ?thesis by simp
    next
      case (Some x)
      with h Decoded
        Cons.IH [of "st\<lparr>conn := c', written := written st @ [x], calls := calls st @ cs,
              handled := Suc (handled st)\<rparr>"]
      show ?thesis by (cases "writeOK (length (written st)) x") simp_all
    qed
  qed
qed

lemma messageLoop_cut:
  "messageLoop s writeOK (map Decoded ms @ Undecodable # post) st =
   messageLoop s writeOK (map Decoded ms) st"
proof (induction ms arbitrary: st)
  case Nil
  then show ?case by simp
next
  case (Cons m ms)
  then show ?case by (simp split: prod.splits option.splits)
qed

lemma decodedPrefix_map: "decodedPrefix (map Decoded ms) = ms"
  by (induction ms) simp_all

lemma decodedPrefix_cut: "decodedPrefix (map Decoded ms @ Undecodable # post) = ms"
  by (induction ms) simp_all

section \<open>Tool listing and tool calls\<close>

lemma listsTool_ping [simp]: "listsTool (pingProvider txt) ''ping''"
  by (simp add: listsTool_def pingProvider_def pingTool_def)

lemma listsTool_failing [simp]: "listsTool failingProvider ''ping''"
  by (simp add: listsTool_def failingProvider_def pingTool_def)

lemma listsTool_broken [simp]: "\<not> listsTool brokenListProvider name"
  by (simp add: listsTool_def brokenListProvider_def)

lemma pingCall_simps [simp]:
  "Method pingCall = ''tools/call''" "Message.ID pingCall = JNumber 3"
  "decodeToolCallParams (Params pingCall) = Inr pingRequest"
  by (simp_all add: pingCall_def requestMessage_def decode_ping)

lemma NewMCPServer_toolProviders: "toolProviders NewMCPServer = []"
  by (simp add: NewMCPServer_def)

lemma handleMessage_callTool:
  assumes "initialized c" and "Method m = ''tools/call''" and "Message.ID m \<noteq> JNull"
    and "decodeToolCallParams (Params m) = Inr req"
  shows "handleMessage s c m =
     (Some (fst (callToolLoop (toolProviders s) 0 req (Message.ID m))), c,
      snd (callToolLoop (toolProviders s) 0 req (Message.ID m)))"
  using assms
  by (simp add: handleMessage_def handleRequest_def handleCallTool_def MethodInitialize_def
      MethodListTools_def MethodCallTool_def split: prod.splits)

lemma handleMessage_listTools:
  assumes "initialized c" and "Method m = ''tools/list''" and "Message.ID m \<noteq> JNull"
  shows "handleMessage s c m =
     (case listToolsLoop (toolProviders s) 0 [] of
        (Inl err, cs) \<Rightarrow>
          (Some (NewErrorResponse (Message.ID m) ErrorCodeInternalError ''Failed to list tools''
                   (Some err)), c, cs)
      | (Inr allTools, cs) \<Rightarrow> (Some (NewResponse (Message.ID m) (ToolsResult allTools)), c, cs))"
  using assms
  by (simp add: handleMessage_def handleRequest_def handleListTools_def MethodInitialize_def
      MethodListTools_def split: prod.splits sum.splits)

text \<open>
  C2. On an initialized connection, a tools/call request whose parameters decode to
  \<open>req\<close>: when no registered provider lists the name, the response is the error
  -32601; when the first provider in registration order that lists the name returns an
  error from \<open>CallTool\<close>, the response is the error -32603 with that error as its data.
  The connection is returned unchanged, and when the response can be written the loop
  goes on with the next frame.
\<close>

theorem call_tool_errors:
  assumes "initialized c" and "Method m = ''tools/call''" and "Message.ID m \<noteq> JNull"
    and "decodeToolCallParams (Params m) = Inr req"
  shows "((\<forall>p\<in>set (toolProviders s). \<not> listsTool p (ToolCallRequest.Name req)) \<longrightarrow>
           handleMessage s c m =
             (Some \<lparr>Response.JSONRPC = ''2.0'', Response.ID = Message.ID m,
                    Response.Result = ResultNil,
                    Response.Error =
                      Some \<lparr>Code = - 32601,
                            Message = ''Tool not found: '' @ ToolCallRequest.Name req,
                            Error.Data = None\<rparr>\<rparr>,
              c, map ListToolsCall [0..<length (toolProviders s)]))
     \<and> (\<forall>pre q post err.
           toolProviders s = pre @ q # post
           \<and> (\<forall>p\<in>set pre. \<not> listsTool p (ToolCallRequest.Name req))
           \<and> listsTool q (ToolCallRequest.Name req) \<and> CallTool q req = Inl err \<longrightarrow>
           handleMessage s c m =
             (Some \<lparr>Response.JSONRPC = ''2.0'', Response.ID = Message.ID m,
                    Response.Result = ResultNil,
                    Response.Error =
                      Some \<lparr>Code = - 32603, Message = ''Tool execution failed'',
                            Error.Data = Some err\<rparr>\<rparr>,
              c, map ListToolsCall [0..<length pre] @
                   [ListToolsCall (length pre), CallToolCall (length pre) req]))
     \<and> (\<exists>r cs. handleMessage s c m = (Some r, c, cs)
           \<and> (conn st = c \<and> writeOK (length (written st)) r \<longrightarrow>
                messageLoop s writeOK (Decoded m # frames) st =
                  messageLoop s writeOK frames
                    (st\<lparr>written := written st @ [r], calls := calls st @ cs,
                        handled := Suc (handled st)\<rparr>)))"
proof (intro conjI allI impI)
  assume "\<forall>p\<in>set (toolProviders s). \<not> listsTool p (ToolCallRequest.Name req)"
  then show "handleMessage s c m =
             (Some \<lparr>Response.JSONRPC = ''2.0'', Response.ID = Message.ID m,
                    Response.Result = ResultNil,
                    Response.Error =
                      Some \<lparr>Code = - 32601,
                            Message = ''Tool not found: '' @ ToolCallRequest.Name req,
                            Error.Data = None\<rparr>\<rparr>,
              c, map ListToolsCall [0..<length (toolProviders s)])"
    using callToolLoop_none [of "toolProviders s" req 0 "Message.ID m"]
    by (simp add: handleMessage_callTool [OF assms] NewErrorResponse_def
        ErrorCodeMethodNotFound_def)
next
  fix pre q post err
  assume h: "toolProviders s = pre @ q # post
           \<and> (\<forall>p\<in>set pre. \<not> listsTool p (ToolCallRequest.Name req))
           \<and> listsTool q (ToolCallRequest.Name req) \<and> CallTool q req = Inl err"
  then show "handleMessage s c m =
             (Some \<lparr>Response.JSONRPC = ''2.0'', Response.ID = Message.ID m,
                    Response.Result = ResultNil,
                    Response.Error =
                      Some \<lparr>Code = - 32603, Message = ''Tool execution failed'',
                            Error.Data = Some err\<rparr>\<rparr>,
              c, map ListToolsCall [0..<length pre] @
                   [ListToolsCall (length pre), CallToolCall (length pre) req])"
    using callToolLoop_first [of pre req q post 0 "Message.ID m"]
    by (simp add: handleMessage_callTool [OF assms] callToolResponse_def NewErrorResponse_def
        ErrorCodeInternalError_def)
next
  show "\<exists>r cs. handleMessage s c m = (Some r, c, cs)
           \<and> (conn st = c \<and> writeOK (length (written st)) r \<longrightarrow>
                messageLoop s writeOK (Decoded m # frames) st =
                  messageLoop s writeOK frames
                    (st\<lparr>written := written st @ [r], calls := calls st @ cs,
                        handled := Suc (handled st)\<rparr>))"
    by (auto simp add: handleMessage_callTool [OF assms])
qed

theorem call_tool_errors_witness:
  "handleMessage (RegisterToolProvider NewMCPServer brokenListProvider) \<lparr>initialized = True\<rparr> pingCall =
     (Some \<lparr>Response.JSONRPC = ''2.0'', Response.ID = JNumber 3, Response.Result = ResultNil,
            Response.Error =
              Some \<lparr>Code = - 32601, Message = ''Tool not found: ping'', Error.Data = None\<rparr>\<rparr>,
      \<lparr>initialized = True\<rparr>, [ListToolsCall 0])
   \<and> handleMessage
       (foldl RegisterToolProvider NewMCPServer
          [brokenListProvider, failingProvider, pingProvider ''B''])
       \<lparr>initialized = True\<rparr> pingCall =
     (Some \<lparr>Response.JSONRPC = ''2.0'', Response.ID = JNumber 3, Response.Result = ResultNil,
            Response.Error =
              Some \<lparr>Code = - 32603, Message = ''Tool execution failed'',
                    Error.Data = Some (ErrorText ''boom'')\<rparr>\<rparr>,
      \<lparr>initialized = True\<rparr>,
      [ListToolsCall 0, ListToolsCall 1, CallToolCall 1 pingRequest])
   \<and> length (written (messageLoop
         (foldl RegisterToolProvider NewMCPServer
            [brokenListProvider, failingProvider, pingProvider ''B''])
         alwaysWritable [Decoded pingCall, Decoded pingCall] readySession)) = 2"
proof -
  let ?s1 = "RegisterToolProvider NewMCPServer brokenListProvider"
  let ?s2 = "foldl RegisterToolProvider NewMCPServer
          [brokenListProvider, failingProvider, pingProvider ''B'']"
  let ?c = "\<lparr>initialized = True\<rparr>"
  have c: "initialized ?c" by simp
  have p1: "toolProviders ?s1 = [brokenListProvider]"
    by (simp add: RegisterToolProvider_def NewMCPServer_def)
  have p2: "toolProviders ?s2 = [brokenListProvider] @ failingProvider # [pingProvider ''B'']"
    by (simp add: RegisterToolProvider_def NewMCPServer_def)
  have f: "CallTool failingProvider pingRequest = Inl (ErrorText ''boom'')"
    by (simp add: failingProvider_def)
  have i: "Message.ID pingCall \<noteq> JNull" by simp
  note t1 = call_tool_errors [OF c pingCall_simps(1) i pingCall_simps(3), of ?s1 readySession
      alwaysWritable "[]"]
  note t2 = call_tool_errors [OF c pingCall_simps(1) i pingCall_simps(3), of ?s2 readySession
      alwaysWritable "[Decoded pingCall]"]
  have a: "handleMessage ?s1 ?c pingCall =
     (Some \<lparr>Response.JSONRPC = ''2.0'', Response.ID = JNumber 3, Response.Result = ResultNil,
            Response.Error =
              Some \<lparr>Code = - 32601, Message = ''Tool not found: ping'', Error.Data = None\<rparr>\<rparr>,
      ?c, [ListToolsCall 0])"
    using t1 [THEN conjunct1] p1 by (simp add: pingRequest_def)
  have b: "handleMessage ?s2 ?c pingCall =
     (Some \<lparr>Response.JSONRPC = ''2.0'', Response.ID = JNumber 3, Response.Result = ResultNil,
            Response.Error =
              Some \<lparr>Code = - 32603, Message = ''Tool execution failed'',
                    Error.Data = Some (ErrorText ''boom'')\<rparr>\<rparr>,
      ?c, [ListToolsCall 0, ListToolsCall 1, CallToolCall 1 pingRequest])"
  proof -
    from t2 [THEN conjunct2, THEN conjunct1, rule_format, of "[brokenListProvider]"
        failingProvider "[pingProvider ''B'']" "ErrorText ''boom''"] p2 f
    show ?thesis by (simp add: pingRequest_def)
  qed
  have l: "length (written (messageLoop ?s2 alwaysWritable [Decoded pingCall, Decoded pingCall]
      readySession)) = 2"
    using b by (simp add: readySession_def newSession_def alwaysWritable_def)
  from a b l show ?thesis by simp
qed

text \<open>
  C5 as stated fails when a provider registered before both \<open>A\<close> and \<open>B\<close> lists the
  name as well: with three providers that all list "ping", the call goes to the first
  of them and not to the second.
\<close>

theorem later_provider_counterexample:
  "listsTool (pingProvider ''A'') ''ping'' \<and> listsTool (pingProvider ''B'') ''ping''
   \<and> handleMessage
       (foldl RegisterToolProvider NewMCPServer
          [pingProvider ''C'', pingProvider ''A'', pingProvider ''B''])
       \<lparr>initialized = True\<rparr> pingCall =
     (Some (NewResponse (JNumber 3) (CallToolResult (textResponse ''C''))),
      \<lparr>initialized = True\<rparr>, [ListToolsCall 0, CallToolCall 0 pingRequest])
   \<and> CallTool (pingProvider ''A'') pingRequest = Inr (textResponse ''A'')
   \<and> textResponse ''A'' \<noteq> textResponse ''C''"
proof -
  have "handleMessage
       (foldl RegisterToolProvider NewMCPServer
          [pingProvider ''C'', pingProvider ''A'', pingProvider ''B''])
       \<lparr>initialized = True\<rparr> pingCall =
     (Some (NewResponse (JNumber 3) (CallToolResult (textResponse ''C''))),
      \<lparr>initialized = True\<rparr>, [ListToolsCall 0, CallToolCall 0 pingRequest])"
    by (simp add: handleMessage_def handleRequest_def handleCallTool_def MethodInitialize_def
        MethodListTools_def MethodCallTool_def RegisterToolProvider_def NewMCPServer_def
        pingProvider_def pingTool_def pingRequest_def)
  moreover have "CallTool (pingProvider ''A'') pingRequest = Inr (textResponse ''A'')"
    by (simp add: pingProvider_def)
  moreover have "textResponse ''A'' \<noteq> textResponse ''C''"
    by (simp add: textResponse_def)
  ultimately show ?thesis by simp
qed

text \<open>
  C5 (as amended). When \<open>A\<close> is the first provider in registration order that lists
  the name of an initialized tools/call request, the handler asks the providers before
  \<open>A\<close> and \<open>A\<close> itself for their listings, calls \<open>CallTool\<close> of \<open>A\<close> and of no
  other provider, and answers with what \<open>A\<close> returned; the providers registered after
  \<open>A\<close> are not touched.
\<close>

theorem first_listing_provider_called:
  assumes "initialized c" and "Method m = ''tools/call''" and "Message.ID m \<noteq> JNull"
    and "decodeToolCallParams (Params m) = Inr req"
    and "toolProviders s0 = []" and "s = foldl RegisterToolProvider s0 (pre @ A # post)"
    and "\<forall>p\<in>set pre. \<not> listsTool p (ToolCallRequest.Name req)"
    and "listsTool A (ToolCallRequest.Name req)"
  shows "handleMessage s c m =
           (Some (case CallTool A req of
                    Inl err \<Rightarrow>
                      NewErrorResponse (Message.ID m) ErrorCodeInternalError
                        ''Tool execution failed'' (Some err)
                  | Inr response \<Rightarrow> NewResponse (Message.ID m) (CallToolResult response)),
            c,
            map ListToolsCall [0..<length pre] @
              [ListToolsCall (length pre), CallToolCall (length pre) req])
     \<and> (\<forall>j r. CallToolCall j r \<in> set (snd (snd (handleMessage s c m))) \<longrightarrow> j = length pre)"
proof -
  have tp: "toolProviders s = pre @ A # post"
    using assms(5,6) by (simp only: toolProviders_register append_Nil)
  have eq: "handleMessage s c m =
           (Some (callToolResponse (Message.ID m) (CallTool A req)), c,
            map ListToolsCall [0..<length pre] @
              [ListToolsCall (length pre), CallToolCall (length pre) req])"
    using callToolLoop_first [OF assms(7,8), of post 0 "Message.ID m"] tp
    by (simp add: handleMessage_callTool [OF assms(1-4)])
  show ?thesis unfolding eq by (auto simp add: callToolResponse_def)
qed

theorem first_listing_provider_called_witness:
  "handleMessage
     (foldl RegisterToolProvider NewMCPServer
        [brokenListProvider, pingProvider ''A'', pingProvider ''B''])
     \<lparr>initialized = True\<rparr> pingCall =
     (Some (NewResponse (JNumber 3) (CallToolResult (textResponse ''A''))),
      \<lparr>initialized = True\<rparr>,
      [ListToolsCall 0, ListToolsCall 1, CallToolCall 1 pingRequest])"
proof -
  have c: "initialized \<lparr>initialized = True\<rparr>" by simp
  have i: "Message.ID pingCall \<noteq> JNull" by simp
  have pre: "\<forall>p\<in>set [brokenListProvider]. \<not> listsTool p (ToolCallRequest.Name pingRequest)"
    by simp
  have a: "listsTool (pingProvider ''A'') (ToolCallRequest.Name pingRequest)"
    by (simp add: pingRequest_def)
  have s: "foldl RegisterToolProvider NewMCPServer
        [brokenListProvider, pingProvider ''A'', pingProvider ''B''] =
      foldl RegisterToolProvider NewMCPServer
        ([brokenListProvider] @ pingProvider ''A'' # [pingProvider ''B''])"
    by simp
  from first_listing_provider_called [OF c pingCall_simps(1) i pingCall_simps(3)
      NewMCPServer_toolProviders s pre a, THEN conjunct1]
  show ?thesis by (simp add: callToolResponse_def pingProvider_def)
qed

text \<open>
  C3. On an initialized connection, tools/list asks every registered tool provider for
  its listing, in registration order, and answers with the concatenation, whose length
  is the sum of the lengths of the listings. When a provider's \<open>ListTools\<close> fails the
  answer is the error -32603 with no result, and the providers after the failing one are
  not asked.
\<close>

theorem list_tools_aggregate:
  assumes "initialized c" and "Method m = ''tools/list''" and "Message.ID m \<noteq> JNull"
    and "toolProviders s0 = []" and "s = foldl RegisterToolProvider s0 ps"
  shows "((\<forall>p\<in>set ps. \<not> isl (ListTools p)) \<longrightarrow>
           handleMessage s c m =
             (Some (NewResponse (Message.ID m) (ToolsResult (concat (map listing ps)))), c,
              map ListToolsCall [0..<length ps])
           \<and> length (concat (map listing ps)) = sum_list (map (\<lambda>p. length (listing p)) ps))
     \<and> (\<forall>pre q post err.
           ps = pre @ q # post \<and> (\<forall>p\<in>set pre. \<not> isl (ListTools p)) \<and> ListTools q = Inl err \<longrightarrow>
           handleMessage s c m =
             (Some \<lparr>Response.JSONRPC = ''2.0'', Response.ID = Message.ID m,
                    Response.Result = ResultNil,
                    Response.Error =
                      Some \<lparr>Code = - 32603, Message = ''Failed to list tools'',
                            Error.Data = Some err\<rparr>\<rparr>,
              c, map ListToolsCall [0..<Suc (length pre)]))
     \<and> ((\<exists>p\<in>set ps. isl (ListTools p)) \<longrightarrow>
          (\<exists>r. fst (handleMessage s c m) = Some r \<and> Response.Result r = ResultNil
             \<and> map_option Code (Response.Error r) = Some (- 32603)))"
proof -
  have tp: "toolProviders s = ps"
    using assms(4,5) by (simp only: toolProviders_register append_Nil)
  have ok: "handleMessage s c m =
             (Some (NewResponse (Message.ID m) (ToolsResult (concat (map listing ps)))), c,
              map ListToolsCall [0..<length ps])"
    if "\<forall>p\<in>set ps. \<not> isl (ListTools p)"
    using listToolsLoop_ok [OF that, of 0 "[]"] tp
    by (simp add: handleMessage_listTools [OF assms(1-3)])
  have len: "length (concat (map listing ps)) = sum_list (map (\<lambda>p. length (listing p)) ps)"
    by (simp add: length_concat comp_def)
  have bad: "handleMessage s c m =
             (Some \<lparr>Response.JSONRPC = ''2.0'', Response.ID = Message.ID m,
                    Response.Result = ResultNil,
                    Response.Error =
                      Some \<lparr>Code = - 32603, Message = ''Failed to list tools'',
                            Error.Data = Some err\<rparr>\<rparr>,
              c, map ListToolsCall [0..<Suc (length pre)])"
    if "ps = pre @ q # post" and "\<forall>p\<in>set pre. \<not> isl (ListTools p)" and "ListTools q = Inl err"
    for pre q post err
    using listToolsLoop_fail [OF that(2,3), of post 0 "[]"] tp that(1)
    by (simp add: handleMessage_listTools [OF assms(1-3)] NewErrorResponse_def
        ErrorCodeInternalError_def)
  have some: "\<exists>r. fst (handleMessage s c m) = Some r \<and> Response.Result r = ResultNil
             \<and> map_option Code (Response.Error r) = Some (- 32603)"
    if "\<exists>p\<in>set ps. isl (ListTools p)"
  proof -
    from split_list_first_prop [OF that]
    obtain pre q post where d: "ps = pre @ q # post" "isl (ListTools q)"
      "\<forall>p\<in>set pre. \<not> isl (ListTools p)" by blast
    then obtain err where "ListTools q = Inl err" by (cases "ListTools q") auto
    from bad [OF d(1) d(3) this] show ?thesis by simp
  qed
  show ?thesis using ok len bad some by blast
qed

theorem list_tools_aggregate_witness:
  "handleMessage (foldl RegisterToolProvider NewMCPServer [pingProvider ''A'', failingProvider])
     \<lparr>initialized = True\<rparr> listCall =
     (Some (NewResponse (JNumber 4) (ToolsResult [pingTool, pingTool])), \<lparr>initialized = True\<rparr>,
      [ListToolsCall 0, ListToolsCall 1])
   \<and> handleMessage
       (foldl RegisterToolProvider NewMCPServer
          [pingProvider ''A'', brokenListProvider, pingProvider ''B''])
       \<lparr>initialized = True\<rparr> listCall =
     (Some \<lparr>Response.JSONRPC = ''2.0'', Response.ID = JNumber 4, Response.Result = ResultNil,
            Response.Error =
              Some \<lparr>Code = - 32603, Message = ''Failed to list tools'',
                    Error.Data = Some (ErrorText ''down'')\<rparr>\<rparr>,
      \<lparr>initialized = True\<rparr>, [ListToolsCall 0, ListToolsCall 1])"
proof -
  have c: "initialized \<lparr>initialized = True\<rparr>" by simp
  have m: "Method listCall = ''tools/list''" and i: "Message.ID listCall \<noteq> JNull"
    and i': "Message.ID listCall = JNumber 4"
    by (simp_all add: listCall_def requestMessage_def)
  have ok: "\<forall>p\<in>set [pingProvider ''A'', failingProvider]. \<not> isl (ListTools p)"
    by (simp add: pingProvider_def failingProvider_def)
  have l: "concat (map listing [pingProvider ''A'', failingProvider]) = [pingTool, pingTool]"
    by (simp add: listing_def pingProvider_def failingProvider_def)
  from list_tools_aggregate [OF c m i NewMCPServer_toolProviders refl,
      of "[pingProvider ''A'', failingProvider]", THEN conjunct1, THEN mp, OF ok, THEN conjunct1]
  have a: "handleMessage (foldl RegisterToolProvider NewMCPServer [pingProvider ''A'', failingProvider])
     \<lparr>initialized = True\<rparr> listCall =
     (Some (NewResponse (JNumber 4) (ToolsResult [pingTool, pingTool])), \<lparr>initialized = True\<rparr>,
      [ListToolsCall 0, ListToolsCall 1])"
    unfolding l i' by (simp add: upt_rec)
  have pre: "[pingProvider ''A'', brokenListProvider, pingProvider ''B''] =
      [pingProvider ''A''] @ brokenListProvider # [pingProvider ''B'']
      \<and> (\<forall>p\<in>set [pingProvider ''A'']. \<not> isl (ListTools p))
      \<and> ListTools brokenListProvider = Inl (ErrorText ''down'')"
    by (simp add: pingProvider_def brokenListProvider_def)
  from list_tools_aggregate [OF c m i NewMCPServer_toolProviders refl,
      of "[pingProvider ''A'', brokenListProvider, pingProvider ''B'']", THEN conjunct2,
      THEN conjunct1, THEN spec, THEN spec, THEN spec, THEN spec, THEN mp, OF pre]
  have b: "handleMessage
       (foldl RegisterToolProvider NewMCPServer
          [pingProvider ''A'', brokenListProvider, pingProvider ''B''])
       \<lparr>initialized = True\<rparr> listCall =
     (Some \<lparr>Response.JSONRPC = ''2.0'', Response.ID = JNumber 4, Response.Result = ResultNil,
            Response.Error =
              Some \<lparr>Code = - 32603, Message = ''Failed to list tools'',
                    Error.Data = Some (ErrorText ''down'')\<rparr>\<rparr>,
      \<lparr>initialized = True\<rparr>, [ListToolsCall 0, ListToolsCall 1])"
    unfolding i' by (simp add: upt_rec)
  from a b show ?thesis by simp
qed

section \<open>The initialize request\<close>

lemma handleMessage_initialize:
  assumes "Method m = ''initialize''" and "Message.ID m \<noteq> JNull"
  shows "handleMessage s c m = (Some (handleInitialize c m), c, [])"
  using assms by (simp add: handleMessage_def handleRequest_def MethodInitialize_def)

text \<open>
  C4 as stated fails for parameters that do not decode into an \<open>InitializeRequest\<close>:
  for a JSON string the answer is the error -32602 and not an \<open>InitializeResult\<close>.
\<close>

theorem initialize_bad_params_counterexample:
  "handleMessage NewMCPServer \<lparr>initialized = False\<rparr>
      (requestMessage (JNumber 1) ''initialize'' (JString ''2024-11-05'')) =
     (Some \<lparr>Response.JSONRPC = ''2.0'', Response.ID = JNumber 1, Response.Result = ResultNil,
            Response.Error =
              Some \<lparr>Code = - 32602, Message = ''Invalid initialize parameters'',
                    Error.Data = Some (UnmarshalTypeError ''string'')\<rparr>\<rparr>,
      \<lparr>initialized = False\<rparr>, [])"
  by (simp add: handleMessage_def handleRequest_def handleInitialize_def requestMessage_def
      MethodInitialize_def unmarshalInitializeRequest_def InitializeRequestType_def
      NewErrorResponse_def ErrorCodeInvalidParams_def)

text \<open>
  C4 (as amended). An initialize request whose parameters are absent, \<open>null\<close> or
  decode into an \<open>InitializeRequest\<close> is answered, whatever the flag \<open>initialized\<close>
  is, with an \<open>InitializeResult\<close> whose protocol version is "2024-11-05" and whose
  server name is "MCP Server Go"; for any other parameters the answer is the error
  -32602 "Invalid initialize parameters" with the decoding error as data. In both cases
  the connection is left as it was and no provider is called.
\<close>

theorem initialize_result:
  assumes "Method m = ''initialize''" and "Message.ID m \<noteq> JNull"
  shows "(Params m = JNull \<or> unmarshalInitializeRequest (Params m) = None \<longrightarrow>
           handleMessage s c m =
             (Some \<lparr>Response.JSONRPC = ''2.0'', Response.ID = Message.ID m,
                    Response.Result = initializeResult, Response.Error = None\<rparr>, c, []))
     \<and> (\<forall>err. Params m \<noteq> JNull \<and> unmarshalInitializeRequest (Params m) = Some err \<longrightarrow>
           handleMessage s c m =
             (Some \<lparr>Response.JSONRPC = ''2.0'', Response.ID = Message.ID m,
                    Response.Result = ResultNil,
                    Response.Error =
                      Some \<lparr>Code = - 32602, Message = ''Invalid initialize parameters'',
                            Error.Data = Some err\<rparr>\<rparr>, c, []))
     \<and> fst (snd (handleMessage s c m)) = c"
  by (auto simp add: handleMessage_initialize [OF assms] handleInitialize_def NewResponse_def
      NewErrorResponse_def initializeResult_def ProtocolVersion_def ErrorCodeInvalidParams_def)

theorem initialize_result_witness:
  "handleMessage NewMCPServer \<lparr>initialized = False\<rparr>
      (requestMessage (JNumber 1) ''initialize'' scenarioInitializeParams) =
     (Some \<lparr>Response.JSONRPC = ''2.0'', Response.ID = JNumber 1,
            Response.Result = initializeResult, Response.Error = None\<rparr>,
      \<lparr>initialized = False\<rparr>, [])
   \<and> handleMessage NewMCPServer \<lparr>initialized = True\<rparr>
      (requestMessage (JNumber 1) ''initialize'' (JArray [])) =
     (Some \<lparr>Response.JSONRPC = ''2.0'', Response.ID = JNumber 1, Response.Result = ResultNil,
            Response.Error =
              Some \<lparr>Code = - 32602, Message = ''Invalid initialize parameters'',
                    Error.Data = Some (UnmarshalTypeError ''array'')\<rparr>\<rparr>,
      \<lparr>initialized = True\<rparr>, [])"
proof -
  have a: "unmarshalInitializeRequest (JArray []) = Some (UnmarshalTypeError ''array'')"
    by (simp add: unmarshalInitializeRequest_def)
  show ?thesis
    using initialize_result [of "requestMessage (JNumber 1) ''initialize'' scenarioInitializeParams"
        NewMCPServer "\<lparr>initialized = False\<rparr>"]
      initialize_result [of "requestMessage (JNumber 1) ''initialize'' (JArray [])"
        NewMCPServer "\<lparr>initialized = True\<rparr>"]
    by (simp add: requestMessage_def decode_init a)
qed

section \<open>Order of the responses and the end of a session\<close>

lemma handleWebSocket_written:
  "written (handleWebSocket s writeOK frames) = written (messageLoop s writeOK frames newSession)"
  by (simp add: handleWebSocket_def)

lemma newSession_simps [simp]:
  "conn newSession = \<lparr>initialized = False\<rparr>" "written newSession = []" "handled newSession = 0"
  by (simp_all add: newSession_def)

lemma handleMessage_initializeCall:
  "handleMessage NewMCPServer \<lparr>initialized = False\<rparr> initializeCall =
     (Some \<lparr>Response.JSONRPC = ''2.0'', Response.ID = JNumber 1,
            Response.Result = initializeResult, Response.Error = None\<rparr>,
      \<lparr>initialized = False\<rparr>, [])"
  by (simp add: handleMessage_def handleRequest_def handleInitialize_def MethodInitialize_def
      initializeCall_def requestMessage_def decode_init NewResponse_def initializeResult_def
      ProtocolVersion_def)

text \<open>
  C7 as stated fails because an envelope with no method is answered too: after such an
  envelope with id 7 and one request with id 1, two responses are written, and the first
  of them answers the invalid envelope, not the first request.
\<close>

theorem invalid_envelope_counterexample:
  "map Response.ID (written (handleWebSocket NewMCPServer alwaysWritable
       [Decoded invalidEnvelope, Decoded initializeCall])) = [JNumber 7, JNumber 1]
   \<and> map Message.ID (filter isRequest [invalidEnvelope, initializeCall]) = [JNumber 1]"
  by (simp add: handleWebSocket_def newSession_def alwaysWritable_def handleMessage_def
      handleRequest_def invalidEnvelope_def initializeCall_def requestMessage_def
      MethodInitialize_def isRequest_def NewErrorResponse_ID handleInitialize_ID)

text \<open>
  C7 (as amended). The responses written on a connection are, in order, the responses
  that \<open>handleMessage\<close> gives to the messages received before the first undecodable
  frame, each handled on the connection as the message before it left it, up to the
  first write error: the i-th response written carries the id of the i-th received
  envelope that is not a notification (a request or an invalid envelope). When no write
  fails, every such envelope is answered; when every received envelope has a method,
  these envelopes are exactly the requests.
\<close>

theorem responses_in_arrival_order:
  "prefix (written (handleWebSocket s writeOK frames))
     (sequentialAnswers s \<lparr>initialized = False\<rparr> (decodedPrefix frames))
   \<and> prefix (map Response.ID (written (handleWebSocket s writeOK frames)))
       (map Message.ID (filter (\<lambda>m. \<not> isNotification m) (decodedPrefix frames)))
   \<and> ((\<forall>k r. writeOK k r) \<longrightarrow>
        written (handleWebSocket s writeOK frames) =
          sequentialAnswers s \<lparr>initialized = False\<rparr> (decodedPrefix frames)
        \<and> map Response.ID (written (handleWebSocket s writeOK frames)) =
            map Message.ID (filter (\<lambda>m. \<not> isNotification m) (decodedPrefix frames)))
   \<and> ((\<forall>m\<in>set (decodedPrefix frames). Method m \<noteq> []) \<longrightarrow>
        filter (\<lambda>m. \<not> isNotification m) (decodedPrefix frames) =
          filter isRequest (decodedPrefix frames))"
proof -
  let ?w = "written (handleWebSocket s writeOK frames)"
  let ?ms = "decodedPrefix frames"
  let ?c = "\<lparr>initialized = False\<rparr>"
  from messageLoop_prefix [of s writeOK frames newSession]
  have p: "prefix ?w (sequentialAnswers s ?c ?ms)"
    by (auto simp add: handleWebSocket_written)
  then have "prefix (map Response.ID ?w) (map Response.ID (sequentialAnswers s ?c ?ms))"
    by (rule map_mono_prefix)
  then have q: "prefix (map Response.ID ?w)
      (map Message.ID (filter (\<lambda>m. \<not> isNotification m) ?ms))"
    by (simp add: sequentialAnswers_IDs)
  have e: "?w = sequentialAnswers s ?c ?ms" if "\<forall>k r. writeOK k r"
    using messageLoop_all_written [OF that, of s frames newSession]
    by (simp add: handleWebSocket_written)
  have f: "filter (\<lambda>m. \<not> isNotification m) ?ms = filter isRequest ?ms"
    if "\<forall>m\<in>set ?ms. Method m \<noteq> []"
    using that by (intro filter_cong) (auto simp add: isNotification_def isRequest_def)
  from p q e f show ?thesis by (simp add: sequentialAnswers_IDs)
qed

theorem responses_in_arrival_order_witness:
  "map Response.ID (written (handleWebSocket NewMCPServer alwaysWritable
       [Decoded initializeCall, Decoded (notificationMessage ''initialized''), Decoded listCall])) =
     [JNumber 1, JNumber 4]
   \<and> map Message.ID
        (filter isRequest [initializeCall, notificationMessage ''initialized'', listCall]) =
     [JNumber 1, JNumber 4]"
proof -
  let ?frames = "[Decoded initializeCall, Decoded (notificationMessage ''initialized''),
      Decoded listCall]"
  have w: "\<forall>k r. alwaysWritable k r" by (simp add: alwaysWritable_def)
  have m: "\<forall>m\<in>set (decodedPrefix ?frames). Method m \<noteq> []"
    by (simp add: initializeCall_def notificationMessage_def listCall_def requestMessage_def)
  note t = responses_in_arrival_order [of NewMCPServer alwaysWritable ?frames]
  from t [THEN conjunct2, THEN conjunct2, THEN conjunct1, THEN mp, OF w, THEN conjunct2]
    t [THEN conjunct2, THEN conjunct2, THEN conjunct2, THEN mp, OF m]
  show ?thesis
    by (simp add: isNotification_def isRequest_def initializeCall_def notificationMessage_def
        listCall_def requestMessage_def)
qed

text \<open>
  C8. The first frame for which \<open>ReadJSON\<close> returns an error ends the loop: the
  session ends exactly as if the connection had been closed by the peer at that point.
  Nothing is written for the frame, no later frame is handled or answered, the socket
  is closed, and the messages before the frame are handled in order as usual.
\<close>

theorem decode_failure_ends_session:
  "handleWebSocket s writeOK (map Decoded ms @ Undecodable # post) =
     handleWebSocket s writeOK (map Decoded ms)
   \<and> closed (handleWebSocket s writeOK (map Decoded ms @ Undecodable # post))
   \<and> handled (handleWebSocket s writeOK (map Decoded ms @ Undecodable # post)) \<le> length ms
   \<and> prefix (written (handleWebSocket s writeOK (map Decoded ms @ Undecodable # post)))
       (sequentialAnswers s \<lparr>initialized = False\<rparr> ms)
   \<and> ((\<forall>k r. writeOK k r) \<longrightarrow>
        written (handleWebSocket s writeOK (map Decoded ms @ Undecodable # post)) =
          sequentialAnswers s \<lparr>initialized = False\<rparr> ms
        \<and> handled (handleWebSocket s writeOK (map Decoded ms @ Undecodable # post)) = length ms)"
proof -
  let ?frames = "map Decoded ms @ Undecodable # post"
  have cut: "handleWebSocket s writeOK ?frames = handleWebSocket s writeOK (map Decoded ms)"
    by (simp add: handleWebSocket_def messageLoop_cut)
  have cl: "closed (handleWebSocket s writeOK ?frames)"
    by (simp add: handleWebSocket_def)
  have h: "handled (handleWebSocket s writeOK ?frames) \<le> length ms"
    using messageLoop_handled [of s writeOK ?frames newSession]
    by (simp add: handleWebSocket_def decodedPrefix_cut)
  have p: "prefix (written (handleWebSocket s writeOK ?frames))
      (sequentialAnswers s \<lparr>initialized = False\<rparr> ms)"
    using messageLoop_prefix [of s writeOK ?frames newSession]
    by (auto simp add: handleWebSocket_def decodedPrefix_cut)
  have e: "written (handleWebSocket s writeOK ?frames) =
          sequentialAnswers s \<lparr>initialized = False\<rparr> ms
        \<and> handled (handleWebSocket s writeOK ?frames) = length ms"
    if "\<forall>k r. writeOK k r"
    using messageLoop_all_written [OF that, of s ?frames newSession]
    by (simp add: handleWebSocket_def decodedPrefix_cut)
  from cut cl h p e show ?thesis by blast
qed

theorem decode_failure_ends_session_witness:
  "written (handleWebSocket NewMCPServer alwaysWritable
      (map Decoded [initializeCall] @ Undecodable # [Decoded listCall])) =
     [\<lparr>Response.JSONRPC = ''2.0'', Response.ID = JNumber 1,
       Response.Result = initializeResult, Response.Error = None\<rparr>]
   \<and> handled (handleWebSocket NewMCPServer alwaysWritable
      (map Decoded [initializeCall] @ Undecodable # [Decoded listCall])) = 1
   \<and> closed (handleWebSocket NewMCPServer alwaysWritable
      (map Decoded [initializeCall] @ Undecodable # [Decoded listCall]))"
proof -
  have w: "\<forall>k r. alwaysWritable k r" by (simp add: alwaysWritable_def)
  note t = decode_failure_ends_session [of NewMCPServer alwaysWritable "[initializeCall]"
      "[Decoded listCall]"]
  have i: "handleMessage NewMCPServer \<lparr>initialized = False\<rparr> initializeCall =
     (Some \<lparr>Response.JSONRPC = ''2.0'', Response.ID = JNumber 1,
            Response.Result = initializeResult, Response.Error = None\<rparr>,
      \<lparr>initialized = False\<rparr>, [])"
    by (rule handleMessage_initializeCall)
  from t [THEN conjunct2, THEN conjunct1]
    t [THEN conjunct2, THEN conjunct2, THEN conjunct2, THEN conjunct2, THEN mp, OF w]
  show ?thesis by (simp add: i)
qed

end
